theory Spec2Isabelle
  imports Complex_Main "HOL-Library.AList"
begin

section \<open>Values, exceptions and log messages\<close>

text \<open>
  The embedded module is \<^verbatim>\<open>bentoml/monitoring/arize/__init__.py\<close>.
  \<^verbatim>\<open>DataType = Union[str, int, float, bool, List[float]]\<close> becomes a tagged value.
  Floats are only carried from \<^verbatim>\<open>log\<close> to the sink; the single operation on one is
  \<^verbatim>\<open>int(timestamp)\<close>, so a float is represented by the real number it denotes.
  \<^verbatim>\<open>assert\<close> statements are executed, as the interpreter does unless it is started
  with \<^verbatim>\<open>-O\<close>. A function that can raise returns the exception as a value; a method
  returns the exception, if any, together with the monitor as the call leaves it, since
  what a method changed before it raised stays changed.
\<close>

datatype DataType =
    DStr string
  | DInt int
  | DFloat real
  | DBool bool
  | DSeq "real list"

text \<open>Python exceptions, by class, with the message or the offending key.\<close>

datatype error =
    ValueError string
  | AssertionError string
  | AttributeError string
  | IndexError string
  | KeyError string

text \<open>
  Every \<^verbatim>\<open>logger.warning\<close> call of the module, one constructor per call site, with the
  arguments that the call formats into the message.
\<close>

datatype warning =
    IgnoredSequencePrediction string
  | IgnoredSequenceTarget string
  | IgnoredColumn string string string
  | ExtraPredictionLabels "string list"
  | ExtraPredictionScores "string list"
  | ExtraActualLabels "string list"
  | ExtraActualScores "string list"
  | UnsupportedModelType
  | MappingNotSupported
  | NoDataLogged

definition bindE :: "error + 'a \<Rightarrow> ('a \<Rightarrow> error + 'b) \<Rightarrow> error + 'b" where
  "bindE r f = (case r of Inl e \<Rightarrow> Inl e | Inr v \<Rightarrow> f v)"

text \<open>\<^verbatim>\<open>xs[0]\<close> raises IndexError on an empty list.\<close>

definition first_item :: "'a list \<Rightarrow> error + 'a" where
  "first_item xs = (case xs of [] \<Rightarrow> Inl (IndexError ''list index out of range'') | x # _ \<Rightarrow> Inr x)"

text \<open>\<^verbatim>\<open>record[key]\<close> on a dict raises KeyError when the key is absent.\<close>

definition getitem :: "(string \<times> 'v) list \<Rightarrow> string \<Rightarrow> error + 'v" where
  "getitem d k = (case map_of d k of None \<Rightarrow> Inl (KeyError k) | Some v \<Rightarrow> Inr v)"

section \<open>The enums\<close>

datatype Mapping = SCORED_CLASSIFICATION | CLASSIFICATION | REGRESSION | RANKING

text \<open>
  \<^verbatim>\<open>arize.utils.types.ModelTypes\<close> and \<^verbatim>\<open>Environments\<close> are enums of the Arize
  client library. The module names two members of the first and one of the second; every
  other member is kept by its name.
\<close>

datatype ModelTypes = SCORE_CATEGORICAL | NUMERIC | OtherModelType string

datatype Environments = PRODUCTION | OtherEnvironment string

section \<open>Field classification: \<^verbatim>\<open>_stat_fields\<close>\<close>

text \<open>A schema entry is the dict \<^verbatim>\<open>{"name": ..., "role": ..., "type": ...}\<close>.\<close>

record Column =
  col_name :: string
  col_role :: string
  col_type :: string

record FieldStats =
  prediction_label_columns :: "string list"
  prediction_score_columns :: "string list"
  actual_label_columns :: "string list"
  actual_score_columns :: "string list"
  feature_columns :: "string list"
  embedding_feature_columns :: "string list"

definition FieldStats_init :: FieldStats where
  "FieldStats_init =
     \<lparr>prediction_label_columns = [], prediction_score_columns = [],
      actual_label_columns = [], actual_score_columns = [],
      feature_columns = [], embedding_feature_columns = []\<rparr>"

text \<open>The body of the \<^verbatim>\<open>for column in schema\<close> loop, on the buckets and the warnings so far.\<close>

definition stat_column :: "Column \<Rightarrow> FieldStats \<times> warning list \<Rightarrow> FieldStats \<times> warning list" where
  "stat_column column acc =
     (let fs = fst acc; ws = snd acc in
      if col_role column = ''feature'' then
        (if col_type column = ''numerical_sequence'' then
           (fs\<lparr>embedding_feature_columns := embedding_feature_columns fs @ [col_name column]\<rparr>, ws)
         else
           (fs\<lparr>feature_columns := feature_columns fs @ [col_name column]\<rparr>, ws))
      else if col_type column = ''categorical'' \<and> col_role column = ''prediction'' then
        (fs\<lparr>prediction_label_columns := prediction_label_columns fs @ [col_name column]\<rparr>, ws)
      else if col_type column = ''numerical'' \<and> col_role column = ''prediction'' then
        (fs\<lparr>prediction_score_columns := prediction_score_columns fs @ [col_name column]\<rparr>, ws)
      else if col_type column = ''numerical_sequence'' \<and> col_role column = ''prediction'' then
        (fs, ws @ [IgnoredSequencePrediction (col_name column)])
      else if col_type column = ''categorical'' \<and> col_role column = ''target'' then
        (fs\<lparr>actual_label_columns := actual_label_columns fs @ [col_name column]\<rparr>, ws)
      else if col_type column = ''numerical'' \<and> col_role column = ''target'' then
        (fs\<lparr>actual_score_columns := actual_score_columns fs @ [col_name column]\<rparr>, ws)
      else if col_type column = ''numerical_sequence'' \<and> col_role column = ''target'' then
        (fs, ws @ [IgnoredSequenceTarget (col_name column)])
      else
        (fs, ws @ [IgnoredColumn (col_name column) (col_role column) (col_type column)]))"

definition stat_fields :: "Column list \<Rightarrow> FieldStats \<times> warning list" where
  "stat_fields schema = fold stat_column schema (FieldStats_init, [])"

section \<open>The validity predicates\<close>

text \<open>Each predicate returns its truth value and the warnings it logged.\<close>

definition warn_extra :: "bool \<Rightarrow> string list \<Rightarrow> (string list \<Rightarrow> warning) \<Rightarrow> warning list" where
  "warn_extra warn cols w = (if warn \<and> length cols > 1 then [w (drop 1 cols)] else [])"

definition is_valid_classification_form :: "FieldStats \<Rightarrow> bool \<Rightarrow> bool \<times> warning list" where
  "is_valid_classification_form fs warn =
     (if prediction_label_columns fs \<noteq> [] \<and> prediction_score_columns fs = [] then
        (True, warn_extra warn (prediction_label_columns fs) ExtraPredictionLabels)
      else if actual_label_columns fs \<noteq> [] \<and> actual_score_columns fs = [] then
        (True, warn_extra warn (actual_label_columns fs) ExtraActualLabels)
      else (False, []))"

definition is_valid_scored_classification_form :: "FieldStats \<Rightarrow> bool \<Rightarrow> bool \<times> warning list" where
  "is_valid_scored_classification_form fs warn =
     (if prediction_label_columns fs \<noteq> [] \<and> prediction_score_columns fs \<noteq> [] then
        (True, warn_extra warn (prediction_label_columns fs) ExtraPredictionLabels
               @ warn_extra warn (prediction_score_columns fs) ExtraPredictionScores)
      else if actual_label_columns fs \<noteq> [] \<and> actual_score_columns fs \<noteq> [] then
        (True, warn_extra warn (actual_label_columns fs) ExtraActualLabels
               @ warn_extra warn (actual_score_columns fs) ExtraActualScores)
      else (False, []))"

text \<open>
  \<^verbatim>\<open>_is_valid_regression_form\<close> opens with \<^verbatim>\<open>assert fields.is_filled\<close>. The class
  \<^verbatim>\<open>_FieldStats\<close> declares the six list attributes above and nothing else, so reading
  \<^verbatim>\<open>is_filled\<close> raises AttributeError before the assertion is evaluated.
\<close>

definition FieldStats_is_filled :: "FieldStats \<Rightarrow> error + bool" where
  "FieldStats_is_filled fs = Inl (AttributeError ''is_filled'')"

definition is_valid_regression_form :: "FieldStats \<Rightarrow> bool \<Rightarrow> (error + bool) \<times> warning list" where
  "is_valid_regression_form fs warn =
     (case FieldStats_is_filled fs of
        Inl e \<Rightarrow> (Inl e, [])
      | Inr filled \<Rightarrow>
          if \<not> filled then (Inl (AssertionError []), [])
          else if prediction_score_columns fs \<noteq> [] \<and> prediction_label_columns fs = [] then
            (Inr True, warn_extra warn (prediction_score_columns fs) ExtraPredictionScores)
          else if actual_score_columns fs \<noteq> [] \<and> actual_label_columns fs = [] then
            (Inr True, warn_extra warn (actual_score_columns fs) ExtraActualScores)
          else (Inr False, []))"

section \<open>Mapping inference: \<^verbatim>\<open>_infer_mapping\<close>\<close>

definition no_valid_mapping_msg :: string where
  "no_valid_mapping_msg = ''failed to find a valid mapping to arize schema for the given schema. Please specify a mapping using the `model_type` parameter.''"

definition infer_mapping :: "FieldStats \<Rightarrow> ModelTypes option \<Rightarrow> (error + Mapping) \<times> warning list" where
  "infer_mapping fs model_type =
     (case model_type of
        None \<Rightarrow>
          (case is_valid_scored_classification_form fs False of
             (True, w1) \<Rightarrow> (Inr SCORED_CLASSIFICATION, w1)
           | (False, w1) \<Rightarrow>
               (case is_valid_classification_form fs False of
                  (True, w2) \<Rightarrow> (Inr CLASSIFICATION, w1 @ w2)
                | (False, w2) \<Rightarrow>
                    (case is_valid_regression_form fs False of
                       (Inl e, w3) \<Rightarrow> (Inl e, w1 @ w2 @ w3)
                     | (Inr True, w3) \<Rightarrow> (Inr REGRESSION, w1 @ w2 @ w3)
                     | (Inr False, w3) \<Rightarrow> (Inl (ValueError no_valid_mapping_msg), w1 @ w2 @ w3))))
      | Some SCORE_CATEGORICAL \<Rightarrow>
          (case is_valid_scored_classification_form fs True of
             (True, w1) \<Rightarrow> (Inr SCORED_CLASSIFICATION, w1)
           | (False, w1) \<Rightarrow>
               (case is_valid_classification_form fs True of
                  (True, w2) \<Rightarrow> (Inr CLASSIFICATION, w1 @ w2)
                | (False, w2) \<Rightarrow>
                    (Inl (ValueError ''Not a valid arize classification schema''), w1 @ w2)))
      | Some NUMERIC \<Rightarrow>
          (case is_valid_regression_form fs True of
             (Inl e, w1) \<Rightarrow> (Inl e, w1)
           | (Inr True, w1) \<Rightarrow> (Inr REGRESSION, w1)
           | (Inr False, w1) \<Rightarrow> (Inl (ValueError ''Not a valid arize regression schema''), w1))
      | Some (OtherModelType other) \<Rightarrow> (Inr REGRESSION, [UnsupportedModelType]))"

section \<open>Record conversion: \<^verbatim>\<open>_map_data\<close>\<close>

text \<open>
  A label handed to the sink is one logged value, or for a scored classification the
  tuple of a label and its score. \<^verbatim>\<open>Embedding(vector=v)\<close> wraps a value.
\<close>

datatype Label = Single DataType | Scored DataType DataType

datatype Embedding = Embedding DataType

type_synonym pyrecord = "(string \<times> DataType) list"

text \<open>
  A dict comprehension \<^verbatim>\<open>{c: f(c) for c in cols}\<close>: keys in first-insertion order, a
  repeated key overwriting its value in place; the first failing \<^verbatim>\<open>f(c)\<close> raises.
\<close>

fun dict_comp :: "(string \<Rightarrow> error + 'v) \<Rightarrow> string list \<Rightarrow> (string \<times> 'v) list \<Rightarrow> error + (string \<times> 'v) list" where
  "dict_comp f [] acc = Inr acc"
| "dict_comp f (c # cs) acc =
     (case f c of Inl e \<Rightarrow> Inl e | Inr v \<Rightarrow> dict_comp f cs (AList.update c v acc))"

text \<open>The pair \<^verbatim>\<open>(prediction_label, actual_label)\<close> of each branch, evaluated left to right.\<close>

definition map_labels :: "pyrecord \<Rightarrow> FieldStats \<Rightarrow> Mapping \<Rightarrow> error + (Label \<times> Label)" where
  "map_labels rec fs mapping =
     (case mapping of
        SCORED_CLASSIFICATION \<Rightarrow>
          bindE (first_item (prediction_label_columns fs)) (\<lambda>pl.
          bindE (getitem rec pl) (\<lambda>plv.
          bindE (first_item (prediction_score_columns fs)) (\<lambda>ps.
          bindE (getitem rec ps) (\<lambda>psv.
          bindE (first_item (actual_label_columns fs)) (\<lambda>al.
          bindE (getitem rec al) (\<lambda>alv.
          bindE (first_item (actual_score_columns fs)) (\<lambda>as.
          bindE (getitem rec as) (\<lambda>asv.
          Inr (Scored plv psv, Scored alv asv)))))))))
      | CLASSIFICATION \<Rightarrow>
          bindE (first_item (prediction_label_columns fs)) (\<lambda>pl.
          bindE (getitem rec pl) (\<lambda>plv.
          bindE (first_item (actual_label_columns fs)) (\<lambda>al.
          bindE (getitem rec al) (\<lambda>alv.
          Inr (Single plv, Single alv)))))
      | REGRESSION \<Rightarrow>
          bindE (first_item (prediction_score_columns fs @ prediction_label_columns fs)) (\<lambda>p.
          bindE (getitem rec p) (\<lambda>pv.
          bindE (first_item (actual_score_columns fs @ actual_label_columns fs)) (\<lambda>a.
          bindE (getitem rec a) (\<lambda>av.
          Inr (Single pv, Single av)))))
      | RANKING \<Rightarrow>
          bindE (first_item (prediction_score_columns fs)) (\<lambda>ps.
          bindE (getitem rec ps) (\<lambda>psv.
          bindE (first_item (actual_score_columns fs)) (\<lambda>as.
          bindE (getitem rec as) (\<lambda>asv.
          Inr (Single psv, Single asv))))))"

type_synonym data_infos =
  "Label \<times> Label \<times> (string \<times> DataType) list \<times> (string \<times> Embedding) list"

definition map_data :: "pyrecord \<Rightarrow> FieldStats \<Rightarrow> Mapping \<Rightarrow> (error + data_infos) \<times> warning list" where
  "map_data rec fs mapping =
     (bindE (map_labels rec fs mapping) (\<lambda>labels.
      bindE (dict_comp (getitem rec) (feature_columns fs) []) (\<lambda>features.
      bindE (dict_comp (\<lambda>c. bindE (getitem rec c) (\<lambda>v. Inr (Embedding v)))
               (embedding_feature_columns fs) []) (\<lambda>embedding_features.
      Inr (fst labels, snd labels, features, embedding_features)))),
      if mapping = RANKING then [MappingNotSupported] else [])"

section \<open>The monitor\<close>

text \<open>
  What the module reads from its surroundings: the wall clock and the request id of the
  trace context (read by \<^verbatim>\<open>log\<close>), and the name and version of the bento (read by
  \<^verbatim>\<open>export_schema\<close>).
\<close>

record Context =
  now :: real
  request_id :: "int option"
  bento_name :: "string option"
  bento_version :: "string option"

text \<open>The keyword arguments of one \<^verbatim>\<open>self._client.log(...)\<close> call.\<close>

record SinkRow =
  row_model_id :: string
  row_model_type :: ModelTypes
  row_environment :: Environments
  row_model_version :: "string option"
  row_tags :: "(string \<times> DataType) list option"
  row_prediction_id :: DataType
  row_prediction_timestamp :: int
  row_prediction_label :: Label
  row_actual_label :: Label
  row_features :: "(string \<times> DataType) list"
  row_embedding_features :: "(string \<times> Embedding) list"

text \<open>
  The instance attributes that the recording and export methods use. \<^verbatim>\<open>columns\<close> is the
  \<^verbatim>\<open>defaultdict(deque)\<close>, in insertion order; \<^verbatim>\<open>data_converter\<close> is the partial
  application of \<^verbatim>\<open>_map_data\<close> that \<^verbatim>\<open>export_schema\<close> stores, absent before;
  \<^verbatim>\<open>client\<close> says whether \<^verbatim>\<open>_init_client\<close> has run. \<^verbatim>\<open>sink\<close> collects the rows
  handed to the Arize client and \<^verbatim>\<open>warnings\<close> the messages handed to the logger.
\<close>

record Monitor =
  model_type :: "ModelTypes option"
  model_id :: "string option"
  model_version :: "string option"
  environment :: "Environments option"
  model_tags :: "(string \<times> DataType) list option"
  is_first_record :: bool
  is_first_column :: bool
  schema :: "Column list"
  columns :: "(string \<times> DataType list) list"
  data_converter :: "(FieldStats \<times> Mapping) option"
  client :: bool
  sink :: "SinkRow list"
  warnings :: "warning list"

definition COLUMN_TIME :: string where
  "COLUMN_TIME = ''timestamp''"

definition COLUMN_RID :: string where
  "COLUMN_RID = ''request_id''"

definition PRESERVED_COLUMNS :: "string list" where
  "PRESERVED_COLUMNS = [COLUMN_TIME, COLUMN_RID]"

definition BENTOML_MONITOR_ROLES :: "string set" where
  "BENTOML_MONITOR_ROLES = {''feature'', ''prediction'', ''target''}"

definition BENTOML_MONITOR_TYPES :: "string set" where
  "BENTOML_MONITOR_TYPES = {''numerical'', ''categorical'', ''numerical_sequence''}"

text \<open>\<^verbatim>\<open>__init__\<close>: the model options as given, the internal state as the constructor sets it.\<close>

definition Monitor_init ::
  "ModelTypes option \<Rightarrow> string option \<Rightarrow> string option \<Rightarrow> Environments option \<Rightarrow>
   (string \<times> DataType) list option \<Rightarrow> Monitor" where
  "Monitor_init mt mid mver env tags =
     \<lparr>model_type = mt, model_id = mid, model_version = mver, environment = env,
      model_tags = tags, is_first_record = True, is_first_column = False,
      schema = [], columns = [], data_converter = None, client = False,
      sink = [], warnings = []\<rparr>"

text \<open>\<^verbatim>\<open>self._columns[name].append(v)\<close>: a missing key gets an empty deque at the end of the dict.\<close>

fun col_append :: "string \<Rightarrow> DataType \<Rightarrow> (string \<times> DataType list) list \<Rightarrow> (string \<times> DataType list) list" where
  "col_append k v [] = [(k, [v])]"
| "col_append k v ((k', q) # cols) =
     (if k' = k then (k', q @ [v]) # cols else (k', q) # col_append k v cols)"

definition start_record :: "Monitor \<Rightarrow> Monitor" where
  "start_record m = m\<lparr>is_first_column := True\<rparr>"

text \<open>
  \<^verbatim>\<open>log\<close>. The result is the exception raised, if any, and the monitor as the call
  leaves it.
\<close>

definition log_data ::
  "Context \<Rightarrow> DataType \<Rightarrow> string \<Rightarrow> string \<Rightarrow> string \<Rightarrow> Monitor \<Rightarrow> error option \<times> Monitor" where
  "log_data ctx data name role data_type m =
     (if name \<in> set PRESERVED_COLUMNS then
        (Some (ValueError (''Column name '' @ name @ '' is preserved. Please use a different name.'')), m)
      else if \<not> role \<in> BENTOML_MONITOR_ROLES then
        (Some (AssertionError (''Invalid role '' @ role)), m)
      else if \<not> data_type \<in> BENTOML_MONITOR_TYPES then
        (Some (AssertionError (''Invalid data type '' @ data_type)), m)
      else
        (let m1 = (if is_first_record m
                   then m\<lparr>schema := schema m @ [\<lparr>col_name = name, col_role = role, col_type = data_type\<rparr>]\<rparr>
                   else m)
         in if is_first_column m1 then
              (let m2 = m1\<lparr>is_first_column := False\<rparr>;
                   m3 = m2\<lparr>columns := col_append COLUMN_TIME (DFloat (now ctx)) (columns m2)\<rparr>
               in case request_id ctx of
                    None \<Rightarrow> (Some (AssertionError []), m3)
                  | Some rid \<Rightarrow>
                      (None, m3\<lparr>columns := col_append name data
                                    (col_append COLUMN_RID (DInt rid) (columns m3))\<rparr>))
            else (None, m1\<lparr>columns := col_append name data (columns m1)\<rparr>)))"

section \<open>Schema export\<close>

text \<open>The dict \<^verbatim>\<open>_mapping_to_model_type\<close>; it has no entry for \<^verbatim>\<open>RANKING\<close>.\<close>

definition mapping_to_model_type :: "Mapping \<Rightarrow> error + ModelTypes" where
  "mapping_to_model_type mapping =
     (case mapping of
        SCORED_CLASSIFICATION \<Rightarrow> Inr SCORE_CATEGORICAL
      | CLASSIFICATION \<Rightarrow> Inr SCORE_CATEGORICAL
      | REGRESSION \<Rightarrow> Inr NUMERIC
      | RANKING \<Rightarrow> Inl (KeyError ''Mapping.RANKING''))"

definition emit :: "warning list \<Rightarrow> Monitor \<Rightarrow> Monitor" where
  "emit ws m = m\<lparr>warnings := warnings m @ ws\<rparr>"

text \<open>
  \<^verbatim>\<open>export_schema\<close>. Building the Arize client (\<^verbatim>\<open>_init_client\<close>) is taken to succeed;
  it only makes the sink available.
\<close>

definition export_schema :: "Context \<Rightarrow> Monitor \<Rightarrow> error option \<times> Monitor" where
  "export_schema ctx m =
     (let fs = fst (stat_fields (schema m));
          m1 = emit (snd (stat_fields (schema m))) m
      in case infer_mapping fs (model_type m1) of
           (Inl e, ws) \<Rightarrow> (Some e, emit ws m1)
         | (Inr mapping, ws) \<Rightarrow>
             (let m2 = (emit ws m1)\<lparr>data_converter := Some (fs, mapping)\<rparr> in
              case (if model_type m2 = None
                    then bindE (mapping_to_model_type mapping) (\<lambda>mt. Inr (m2\<lparr>model_type := Some mt\<rparr>))
                    else Inr m2) of
                Inl e \<Rightarrow> (Some e, m2)
              | Inr m3 \<Rightarrow>
                  (let m4 = (if model_version m3 = None \<and> model_id m3 = None
                             then m3\<lparr>model_id := bento_name ctx, model_version := bento_version ctx\<rparr>
                             else m3);
                       m5 = (if environment m4 = None then m4\<lparr>environment := Some PRODUCTION\<rparr> else m4)
                   in (None, m5\<lparr>client := True\<rparr>))))"

section \<open>Data export\<close>

text \<open>
  \<^verbatim>\<open>{k: v.popleft() for k, v in self._columns.items()}\<close>: the queues are popped in dict
  order; an empty queue raises IndexError (the result \<^verbatim>\<open>None\<close>), and the queues popped
  before it stay popped.
\<close>

fun popleft_all :: "(string \<times> DataType list) list \<Rightarrow> pyrecord option \<times> (string \<times> DataType list) list" where
  "popleft_all [] = (Some [], [])"
| "popleft_all ((k, q) # cols) =
     (case q of
        [] \<Rightarrow> (None, (k, q) # cols)
      | v # q' \<Rightarrow>
          (case popleft_all cols of
             (None, cols') \<Rightarrow> (None, (k, q') # cols')
           | (Some rec, cols') \<Rightarrow> (Some ((k, v) # rec), (k, q') # cols')))"

text \<open>\<^verbatim>\<open>int(x)\<close> on a float truncates towards zero.\<close>

definition py_int :: "real \<Rightarrow> int" where
  "py_int x = (if 0 \<le> x then \<lfloor>x\<rfloor> else \<lceil>x\<rceil>)"

text \<open>
  The statements of the \<^verbatim>\<open>try\<close> block after the pop, up to the arguments of the sink
  call: the row to send or the exception raised, and the warnings of the converter. The
  three assertions before the loop have established the model id, type and environment.
\<close>

definition export_row ::
  "Monitor \<Rightarrow> string \<Rightarrow> ModelTypes \<Rightarrow> Environments \<Rightarrow> pyrecord \<Rightarrow> (error + SinkRow) \<times> warning list" where
  "export_row m mid mt env rec =
     (case getitem rec COLUMN_TIME of
        Inl e \<Rightarrow> (Inl e, [])
      | Inr (DFloat timestamp) \<Rightarrow>
          (case getitem rec COLUMN_RID of
             Inl e \<Rightarrow> (Inl e, [])
           | Inr prediction_id \<Rightarrow>
               if \<not> (case prediction_id of DInt _ \<Rightarrow> True | DBool _ \<Rightarrow> True | _ \<Rightarrow> False) then
                 (Inl (AssertionError []), [])
               else
                 (case data_converter m of
                    None \<Rightarrow> (Inl (AttributeError ''_data_converter''), [])
                  | Some (fs, mapping) \<Rightarrow>
                      (case map_data rec fs mapping of
                         (Inl e, ws) \<Rightarrow> (Inl e, ws)
                       | (Inr data_infos, ws) \<Rightarrow>
                           if \<not> client m then (Inl (AttributeError ''_client''), ws)
                           else
                             (Inr \<lparr>row_model_id = mid, row_model_type = mt,
                                   row_environment = env,
                                   row_model_version = model_version m,
                                   row_tags = model_tags m,
                                   row_prediction_id = prediction_id,
                                   row_prediction_timestamp = py_int timestamp,
                                   row_prediction_label = fst data_infos,
                                   row_actual_label = fst (snd data_infos),
                                   row_features = fst (snd (snd data_infos)),
                                   row_embedding_features = snd (snd (snd data_infos))\<rparr>, ws))))
      | Inr _ \<Rightarrow> (Inl (AssertionError []), []))"

text \<open>
  One turn of \<^verbatim>\<open>while True: try: ... except IndexError: break\<close>. Any IndexError raised
  inside the \<^verbatim>\<open>try\<close> block ends the loop normally, whichever statement raised it; any other
  exception leaves \<^verbatim>\<open>export_data\<close>. The sink call is taken to succeed.
\<close>

datatype turn = Continue | Break | Raised error

definition export_turn :: "string \<Rightarrow> ModelTypes \<Rightarrow> Environments \<Rightarrow> Monitor \<Rightarrow> turn \<times> Monitor" where
  "export_turn mid mt env m =
     (case popleft_all (columns m) of
        (None, cols') \<Rightarrow> (Break, m\<lparr>columns := cols'\<rparr>)
      | (Some rec, cols') \<Rightarrow>
          (let m1 = m\<lparr>columns := cols'\<rparr> in
           case export_row m1 mid mt env rec of
             (Inl (IndexError msg), ws) \<Rightarrow> (Break, emit ws m1)
           | (Inl e, ws) \<Rightarrow> (Raised e, emit ws m1)
           | (Inr row, ws) \<Rightarrow> (Continue, (emit ws m1)\<lparr>sink := sink m1 @ [row]\<rparr>)))"

definition buffered :: "Monitor \<Rightarrow> nat" where
  "buffered m = sum_list (map (\<lambda>kq. length (snd kq)) (columns m))"

text \<open>
  A turn that goes on has popped one value from every queue and has found the
  \<^verbatim>\<open>timestamp\<close> key in the popped record, so there was a queue and the buffers shrank:
  the \<^verbatim>\<open>while True\<close> loop terminates.
\<close>

lemma popleft_all_Some:
  "popleft_all cols = (Some rec, cols') \<Longrightarrow>
     length rec = length cols \<and>
     sum_list (map (\<lambda>kq. length (snd kq)) cols') + length cols
       = sum_list (map (\<lambda>kq. length (snd kq)) cols)"
  by (induction cols arbitrary: rec cols' rule: popleft_all.induct)
     (auto split: list.splits prod.splits option.splits)

lemma export_row_Inr_nonempty:
  "export_row m mid mt env rec = (Inr row, ws) \<Longrightarrow> rec \<noteq> []"
  by (auto simp: export_row_def getitem_def)

lemma export_turn_Continue_less:
  assumes "export_turn mid mt env m = (Continue, m')"
  shows "buffered m' < buffered m"
proof -
  from assms obtain rec cols' row ws where
    pop: "popleft_all (columns m) = (Some rec, cols')" and
    row: "export_row (m\<lparr>columns := cols'\<rparr>) mid mt env rec = (Inr row, ws)" and
    m': "columns m' = cols'"
    by (auto simp: export_turn_def Let_def emit_def
             split: prod.splits option.splits sum.splits error.splits)
  from row have "rec \<noteq> []" by (rule export_row_Inr_nonempty)
  with popleft_all_Some [OF pop] have "columns m \<noteq> []" by auto
  with popleft_all_Some [OF pop] m' show ?thesis
    by (cases "columns m") (simp_all add: buffered_def)
qed

function export_loop :: "string \<Rightarrow> ModelTypes \<Rightarrow> Environments \<Rightarrow> Monitor \<Rightarrow> error option \<times> Monitor" where
  "export_loop mid mt env m =
     (case export_turn mid mt env m of
        (Continue, m') \<Rightarrow> export_loop mid mt env m'
      | (Break, m') \<Rightarrow> (None, m')
      | (Raised e, m') \<Rightarrow> (Some e, m'))"
  by pat_completeness auto
termination
  by (relation "measure (\<lambda>(mid, mt, env, m). buffered m)")
     (auto dest: export_turn_Continue_less [OF sym])

text \<open>
  \<^verbatim>\<open>export_data\<close>. \<^verbatim>\<open>len(set(len(q) for q in self._columns.values()))\<close> is the number
  of distinct queue lengths.
\<close>

definition export_data :: "Monitor \<Rightarrow> error option \<times> Monitor" where
  "export_data m =
     (if length (remdups (map (\<lambda>kq. length (snd kq)) (columns m))) \<noteq> 1 then
        (Some (AssertionError ''All columns must have the same length''), m)
      else
        (case model_id m of
           None \<Rightarrow> (Some (AssertionError []), m)
         | Some mid \<Rightarrow>
             (case model_type m of
                None \<Rightarrow> (Some (AssertionError []), m)
              | Some mt \<Rightarrow>
                  (case environment m of
                     None \<Rightarrow> (Some (AssertionError []), m)
                   | Some env \<Rightarrow> export_loop mid mt env m))))"

section \<open>Closing a record\<close>

definition stop_record :: "Context \<Rightarrow> Monitor \<Rightarrow> error option \<times> Monitor" where
  "stop_record ctx m =
     (case (if is_first_record m then
              (case export_schema ctx m of
                 (Some e, m') \<Rightarrow> (Some e, m')
               | (None, m') \<Rightarrow> (None, m'\<lparr>is_first_record := False\<rparr>))
            else (None, m)) of
        (Some e, m1) \<Rightarrow> (Some e, m1)
      | (None, m1) \<Rightarrow>
          if is_first_column m1 then (None, emit [NoDataLogged] m1)
          else export_data m1)"

section \<open>Driving the monitor\<close>

text \<open>A caller's sequence of \<^verbatim>\<open>log\<close> calls; the first one that raises ends it.\<close>

fun log_all :: "Context \<Rightarrow> (DataType \<times> string \<times> string \<times> string) list \<Rightarrow> Monitor \<Rightarrow> error option \<times> Monitor" where
  "log_all ctx [] m = (None, m)"
| "log_all ctx ((d, n, r, t) # calls) m =
     (case log_data ctx d n r t m of
        (Some e, m') \<Rightarrow> (Some e, m')
      | (None, m') \<Rightarrow> log_all ctx calls m')"

text \<open>A request context for the concrete runs below.\<close>

definition ctx0 :: Context where
  "ctx0 = \<lparr>now = 12.5, request_id = Some 7, bento_name = Some ''bento'', bento_version = Some ''v1''\<rparr>"

definition fresh :: "ModelTypes option \<Rightarrow> Monitor" where
  "fresh mt = Monitor_init mt None None None None"

text \<open>An open first record in which the column \<^verbatim>\<open>a\<close> was logged twice.\<close>

definition unequal_monitor :: Monitor where
  "unequal_monitor =
     snd (log_all ctx0 [(DInt 1, ''a'', ''feature'', ''numerical''),
                        (DInt 2, ''a'', ''feature'', ''numerical'')]
            (start_record (fresh None)))"

text \<open>The \<^verbatim>\<open>log\<close> calls of Scenario B, and the monitor after them.\<close>

definition scenario_B_calls :: "(DataType \<times> string \<times> string \<times> string) list" where
  "scenario_B_calls =
     [(DInt 30, ''age'', ''feature'', ''numerical''),
      (DStr ''yes'', ''pred_label'', ''prediction'', ''categorical''),
      (DFloat 0.9, ''pred_score'', ''prediction'', ''numerical''),
      (DStr ''yes'', ''label'', ''target'', ''categorical'')]"

definition scenario_B_logged :: Monitor where
  "scenario_B_logged = snd (log_all ctx0 scenario_B_calls (start_record (fresh None)))"

text \<open>A first record that logs one prediction label column once, and the monitor after
  the schema export that \<^verbatim>\<open>stop_record\<close> runs before \<^verbatim>\<open>export_data\<close>.\<close>

definition label_only_logged :: Monitor where
  "label_only_logged =
     snd (log_all ctx0 [(DStr ''yes'', ''pred_label'', ''prediction'', ''categorical'')]
            (start_record (fresh None)))"

definition label_only_frozen :: Monitor where
  "label_only_frozen = (snd (export_schema ctx0 label_only_logged))\<lparr>is_first_record := False\<rparr>"

text \<open>The \<^verbatim>\<open>log\<close> calls of Scenario A in a first record, and the monitor after the schema
  export.\<close>

definition scenario_A_logged :: Monitor where
  "scenario_A_logged =
     snd (log_all ctx0
            [(DInt 30, ''age'', ''feature'', ''numerical''),
             (DStr ''yes'', ''pred_label'', ''prediction'', ''categorical''),
             (DStr ''yes'', ''label'', ''target'', ''categorical'')]
            (start_record (fresh None)))"

definition scenario_A_frozen :: Monitor where
  "scenario_A_frozen = (snd (export_schema ctx0 scenario_A_logged))\<lparr>is_first_record := False\<rparr>"

text \<open>
  A monitor whose first record logged one sequence-typed prediction under the
  SCORE_CATEGORICAL hint and was closed: the schema export raised, so the monitor is still
  on its first record, with that column in its schema.
\<close>

definition failed_first_record :: Monitor where
  "failed_first_record =
     snd (stop_record ctx0
            (snd (log_all ctx0 [(DSeq [0.5, 0.25], ''emb'', ''prediction'', ''numerical_sequence'')]
                    (start_record (fresh (Some SCORE_CATEGORICAL))))))"

text \<open>
  For stating what a drain does: the record made of the \<open>i\<close>-th element of every queue, and
  the queues with their first \<open>i\<close> elements removed.
\<close>

definition nth_record :: "(string \<times> DataType list) list \<Rightarrow> nat \<Rightarrow> pyrecord" where
  "nth_record cols i = map (\<lambda>kq. (fst kq, snd kq ! i)) cols"

definition drop_records :: "nat \<Rightarrow> (string \<times> DataType list) list \<Rightarrow> (string \<times> DataType list) list" where
  "drop_records i cols = map (\<lambda>kq. (fst kq, drop i (snd kq))) cols"

section \<open>Field classification\<close>

lemma stat_column_prediction_label:
  "prediction_label_columns (fst (stat_column c acc)) =
     prediction_label_columns (fst acc) @
       (if col_role c = ''prediction'' \<and> col_type c = ''categorical'' then [col_name c] else [])"
  by (simp add: stat_column_def Let_def)

lemma stat_column_prediction_score:
  "prediction_score_columns (fst (stat_column c acc)) =
     prediction_score_columns (fst acc) @
       (if col_role c = ''prediction'' \<and> col_type c = ''numerical'' then [col_name c] else [])"
  by (simp add: stat_column_def Let_def)

lemma stat_column_actual_label:
  "actual_label_columns (fst (stat_column c acc)) =
     actual_label_columns (fst acc) @
       (if col_role c = ''target'' \<and> col_type c = ''categorical'' then [col_name c] else [])"
  by (simp add: stat_column_def Let_def)

lemma stat_column_actual_score:
  "actual_score_columns (fst (stat_column c acc)) =
     actual_score_columns (fst acc) @
       (if col_role c = ''target'' \<and> col_type c = ''numerical'' then [col_name c] else [])"
  by (simp add: stat_column_def Let_def)

lemma stat_column_feature:
  "feature_columns (fst (stat_column c acc)) =
     feature_columns (fst acc) @
       (if col_role c = ''feature'' \<and> col_type c \<noteq> ''numerical_sequence'' then [col_name c] else [])"
  by (simp add: stat_column_def Let_def)

lemma stat_column_embedding_feature:
  "embedding_feature_columns (fst (stat_column c acc)) =
     embedding_feature_columns (fst acc) @
       (if col_role c = ''feature'' \<and> col_type c = ''numerical_sequence'' then [col_name c] else [])"
  by (simp add: stat_column_def Let_def)

text \<open>
  A bucket that each loop turn extends by the column's name when the column passes a
  test, and leaves alone otherwise, ends as the names of the columns passing the test, in
  schema order.
\<close>

lemma fold_stat_column_bucket:
  assumes "\<And>c acc. bucket (fst (stat_column c acc)) = bucket (fst acc) @ (if P c then [col_name c] else [])"
  shows "bucket (fst (fold stat_column sch acc)) = bucket (fst acc) @ map col_name (filter P sch)"
  by (induction sch arbitrary: acc) (simp_all add: assms)

text \<open>
  C6. \<^verbatim>\<open>_stat_fields\<close> is a function of the schema alone, and each of its six buckets is
  the list of names, in schema declaration order, of the columns with the bucket's role and
  type: prediction/categorical, prediction/numerical, target/categorical,
  target/numerical, feature with a type other than numerical_sequence, and
  feature/numerical_sequence. A prediction or target column of type numerical_sequence
  is in no bucket.
\<close>

theorem stat_fields_routes:
  "fst (stat_fields sch) =
     \<lparr>prediction_label_columns =
          map col_name (filter (\<lambda>c. col_role c = ''prediction'' \<and> col_type c = ''categorical'') sch),
       prediction_score_columns =
          map col_name (filter (\<lambda>c. col_role c = ''prediction'' \<and> col_type c = ''numerical'') sch),
       actual_label_columns =
          map col_name (filter (\<lambda>c. col_role c = ''target'' \<and> col_type c = ''categorical'') sch),
       actual_score_columns =
          map col_name (filter (\<lambda>c. col_role c = ''target'' \<and> col_type c = ''numerical'') sch),
       feature_columns =
          map col_name (filter (\<lambda>c. col_role c = ''feature'' \<and> col_type c \<noteq> ''numerical_sequence'') sch),
       embedding_feature_columns =
          map col_name (filter (\<lambda>c. col_role c = ''feature'' \<and> col_type c = ''numerical_sequence'') sch)\<rparr>"
  by (rule FieldStats.equality)
     (simp_all add: stat_fields_def FieldStats_init_def
       fold_stat_column_bucket [of prediction_label_columns, OF stat_column_prediction_label]
       fold_stat_column_bucket [of prediction_score_columns, OF stat_column_prediction_score]
       fold_stat_column_bucket [of actual_label_columns, OF stat_column_actual_label]
       fold_stat_column_bucket [of actual_score_columns, OF stat_column_actual_score]
       fold_stat_column_bucket [of feature_columns, OF stat_column_feature]
       fold_stat_column_bucket [of embedding_feature_columns, OF stat_column_embedding_feature])

section \<open>Mapping inference\<close>

text \<open>
  C5. With no hint, buckets that hold both a label column and a score column on the
  prediction side, or both on the target side, are inferred as SCORED_CLASSIFICATION:
  that predicate is tried first, and no warning is logged.
\<close>

theorem infer_mapping_scored_first:
  assumes "(prediction_label_columns fs \<noteq> [] \<and> prediction_score_columns fs \<noteq> []) \<or>
           (actual_label_columns fs \<noteq> [] \<and> actual_score_columns fs \<noteq> [])"
  shows "infer_mapping fs None = (Inr SCORED_CLASSIFICATION, [])"
  using assms
  by (auto simp: infer_mapping_def is_valid_scored_classification_form_def warn_extra_def)

theorem infer_mapping_scored_first_witness:
  "actual_label_columns (fst (stat_fields
       [\<lparr>col_name = ''label'', col_role = ''target'', col_type = ''categorical''\<rparr>,
        \<lparr>col_name = ''score'', col_role = ''target'', col_type = ''numerical''\<rparr>])) = [''label''] \<and>
   actual_score_columns (fst (stat_fields
       [\<lparr>col_name = ''label'', col_role = ''target'', col_type = ''categorical''\<rparr>,
        \<lparr>col_name = ''score'', col_role = ''target'', col_type = ''numerical''\<rparr>])) = [''score''] \<and>
   infer_mapping (fst (stat_fields
       [\<lparr>col_name = ''label'', col_role = ''target'', col_type = ''categorical''\<rparr>,
        \<lparr>col_name = ''score'', col_role = ''target'', col_type = ''numerical''\<rparr>])) None
     = (Inr SCORED_CLASSIFICATION, [])"
  using infer_mapping_scored_first [of "fst (stat_fields
       [\<lparr>col_name = ''label'', col_role = ''target'', col_type = ''categorical''\<rparr>,
        \<lparr>col_name = ''score'', col_role = ''target'', col_type = ''numerical''\<rparr>])"]
  by (simp add: stat_fields_def stat_column_def FieldStats_init_def)

text \<open>
  C7. A hint other than SCORE_CATEGORICAL and NUMERIC never fails, whatever the buckets:
  one warning is logged and the mapping is REGRESSION, with no validity predicate
  consulted.
\<close>

theorem infer_mapping_unsupported_hint:
  assumes "mt \<noteq> SCORE_CATEGORICAL" and "mt \<noteq> NUMERIC"
  shows "infer_mapping fs (Some mt) = (Inr REGRESSION, [UnsupportedModelType])"
  using assms by (cases mt) (simp_all add: infer_mapping_def)

theorem infer_mapping_unsupported_hint_witness:
  "infer_mapping FieldStats_init (Some (OtherModelType ''RANKING''))
     = (Inr REGRESSION, [UnsupportedModelType])"
  using infer_mapping_unsupported_hint [of "OtherModelType ''RANKING''" FieldStats_init]
  by simp

text \<open>
  With no hint, buckets that pass neither the scored-classification nor the
  classification predicate reach \<^verbatim>\<open>_is_valid_regression_form\<close>, whose first statement
  raises AttributeError.
\<close>

lemma infer_mapping_reaches_regression:
  assumes "\<not> (prediction_label_columns fs \<noteq> [] \<and> prediction_score_columns fs \<noteq> [])"
      and "\<not> (actual_label_columns fs \<noteq> [] \<and> actual_score_columns fs \<noteq> [])"
      and "\<not> (prediction_label_columns fs \<noteq> [] \<and> prediction_score_columns fs = [])"
      and "\<not> (actual_label_columns fs \<noteq> [] \<and> actual_score_columns fs = [])"
  shows "infer_mapping fs None = (Inl (AttributeError ''is_filled''), [])"
  using assms
  by (simp add: infer_mapping_def is_valid_scored_classification_form_def
        is_valid_classification_form_def is_valid_regression_form_def FieldStats_is_filled_def)

text \<open>
  C1. A schema of one prediction score column (prediction, numerical) and nothing else:
  with no hint, \<^verbatim>\<open>_infer_mapping\<close> does not return REGRESSION; it raises AttributeError.
\<close>

theorem infer_mapping_score_only_raises:
  "fst (stat_fields [\<lparr>col_name = ''score'', col_role = ''prediction'', col_type = ''numerical''\<rparr>])
     = FieldStats_init\<lparr>prediction_score_columns := [''score'']\<rparr> \<and>
   infer_mapping
     (fst (stat_fields [\<lparr>col_name = ''score'', col_role = ''prediction'', col_type = ''numerical''\<rparr>]))
     None = (Inl (AttributeError ''is_filled''), [])"
  using infer_mapping_reaches_regression [of "FieldStats_init\<lparr>prediction_score_columns := [''score'']\<rparr>"]
  by (simp add: stat_fields_def stat_column_def FieldStats_init_def)

text \<open>
  C2. The empty schema, whose buckets pass none of the three predicates on either side:
  with no hint, \<^verbatim>\<open>_infer_mapping\<close> raises AttributeError, not the ValueError of its last
  branch.
\<close>

theorem infer_mapping_no_form_raises_attribute_error:
  "fst (stat_fields []) = FieldStats_init \<and>
   infer_mapping (fst (stat_fields [])) None = (Inl (AttributeError ''is_filled''), []) \<and>
   infer_mapping (fst (stat_fields [])) None \<noteq> (Inl (ValueError no_valid_mapping_msg), [])"
  using infer_mapping_reaches_regression [of FieldStats_init]
  by (simp add: stat_fields_def FieldStats_init_def)

section \<open>Logging\<close>

text \<open>
  C10. A \<^verbatim>\<open>log\<close> call whose name is a reserved column name, or whose role is outside
  \<^verbatim>\<open>BENTOML_MONITOR_ROLES\<close>, or whose type is outside \<^verbatim>\<open>BENTOML_MONITOR_TYPES\<close>,
  raises and leaves the monitor as it was: schema, column queues and both flags.
\<close>

theorem log_data_failure_atomic:
  assumes "name \<in> set PRESERVED_COLUMNS \<or> role \<notin> BENTOML_MONITOR_ROLES \<or>
           data_type \<notin> BENTOML_MONITOR_TYPES"
  shows "fst (log_data ctx data name role data_type m) \<noteq> None \<and>
         snd (log_data ctx data name role data_type m) = m"
  using assms by (auto simp: log_data_def)

theorem log_data_failure_atomic_witness:
  "''request_id'' \<in> set PRESERVED_COLUMNS \<and>
   fst (log_data ctx0 (DInt 1) ''request_id'' ''feature'' ''numerical'' (start_record (fresh None))) \<noteq> None \<and>
   snd (log_data ctx0 (DInt 1) ''request_id'' ''feature'' ''numerical'' (start_record (fresh None)))
     = start_record (fresh None)"
  using log_data_failure_atomic
          [of "''request_id''" "''feature''" "''numerical''" ctx0 "DInt 1" "start_record (fresh None)"]
  by (simp add: PRESERVED_COLUMNS_def COLUMN_RID_def)

text \<open>
  The fourth way \<^verbatim>\<open>log\<close> can raise is outside the three causes above: when the trace
  context has no request id, the assertion fails after the schema entry and the timestamp
  were appended.
\<close>

lemma log_data_missing_request_id:
  "fst (log_data (ctx0\<lparr>request_id := None\<rparr>) (DInt 1) ''a'' ''feature'' ''numerical''
          (start_record (fresh None))) = Some (AssertionError []) \<and>
   columns (snd (log_data (ctx0\<lparr>request_id := None\<rparr>) (DInt 1) ''a'' ''feature'' ''numerical''
          (start_record (fresh None)))) = [(''timestamp'', [DFloat (now ctx0)])] \<and>
   schema (snd (log_data (ctx0\<lparr>request_id := None\<rparr>) (DInt 1) ''a'' ''feature'' ''numerical''
          (start_record (fresh None)))) =
     [\<lparr>col_name = ''a'', col_role = ''feature'', col_type = ''numerical''\<rparr>]"
  by code_simp

section \<open>Data export\<close>

text \<open>
  C8. When two column queues have different lengths as \<^verbatim>\<open>export_data\<close> starts, it raises
  the AssertionError of its first statement and the monitor is unchanged: nothing was
  popped and nothing was sent.
\<close>

theorem export_data_unequal_lengths:
  assumes "(k1, q1) \<in> set (columns m)" and "(k2, q2) \<in> set (columns m)"
      and "length q1 \<noteq> length q2"
  shows "export_data m = (Some (AssertionError ''All columns must have the same length''), m)"
proof -
  let ?L = "set (map (\<lambda>kq. length (snd kq)) (columns m))"
  have in1: "length q1 \<in> ?L" using assms(1) by force
  have in2: "length q2 \<in> ?L" using assms(2) by force
  have "card ?L \<noteq> 1"
  proof
    assume "card ?L = 1"
    then obtain x where "?L = {x}" by (auto simp: card_1_singleton_iff)
    with in1 in2 have "length q1 = x" and "length q2 = x" by blast+
    with assms(3) show False by simp
  qed
  then have "length (remdups (map (\<lambda>kq. length (snd kq)) (columns m))) \<noteq> 1"
    by (simp add: length_remdups_card_conv)
  then show ?thesis by (simp add: export_data_def)
qed

lemma unequal_monitor_columns:
  "columns unequal_monitor =
     [(''timestamp'', [DFloat 12.5]), (''request_id'', [DInt 7]), (''a'', [DInt 1, DInt 2])]"
  by (simp add: unequal_monitor_def ctx0_def fresh_def Monitor_init_def start_record_def
        log_data_def PRESERVED_COLUMNS_def COLUMN_TIME_def COLUMN_RID_def
        BENTOML_MONITOR_ROLES_def BENTOML_MONITOR_TYPES_def Let_def)

theorem export_data_unequal_lengths_witness:
  "(''timestamp'', [DFloat 12.5]) \<in> set (columns unequal_monitor) \<and>
   (''a'', [DInt 1, DInt 2]) \<in> set (columns unequal_monitor) \<and>
   export_data unequal_monitor
     = (Some (AssertionError ''All columns must have the same length''), unequal_monitor)"
  using export_data_unequal_lengths
          [of "''timestamp''" "[DFloat 12.5]" unequal_monitor "''a''" "[DInt 1, DInt 2]"]
  by (simp add: unequal_monitor_columns)

text \<open>
  C3. Scenario B: one record logs age = 30, pred_label = "yes", pred_score = 0.9 and
  label = "yes". Every \<^verbatim>\<open>log\<close> call and \<^verbatim>\<open>stop_record\<close> return normally and the inferred
  mapping is SCORED_CLASSIFICATION, but no row reaches the sink: the converter reads
  \<^verbatim>\<open>fields.actual_score_columns[0]\<close> of an empty bucket, and the IndexError ends the
  drain loop after the record has been popped from every queue.
\<close>

theorem scenario_B_exports_no_row:
  "fst (log_all ctx0 scenario_B_calls (start_record (fresh None))) = None \<and>
   fst (stop_record ctx0 scenario_B_logged) = None \<and>
   map_option snd (data_converter (snd (stop_record ctx0 scenario_B_logged)))
     = Some SCORED_CLASSIFICATION \<and>
   sink (snd (stop_record ctx0 scenario_B_logged)) = [] \<and>
   columns (snd (stop_record ctx0 scenario_B_logged)) =
     [(''timestamp'', []), (''request_id'', []), (''age'', []), (''pred_label'', []),
      (''pred_score'', []), (''label'', [])]"
  by code_simp

text \<open>
  C9. A first record that logs the one column pred_label once: the three queues
  (timestamp, request_id, pred_label) hold one element each and the mapping is
  CLASSIFICATION. The one \<^verbatim>\<open>export_data\<close> call returns normally, removes the element of every
  queue and sends nothing: the converter reads \<^verbatim>\<open>fields.actual_label_columns[0]\<close> of an
  empty bucket, and the IndexError ends the drain loop.
\<close>

theorem label_only_export_drops_record:
  "stop_record ctx0 label_only_logged = export_data label_only_frozen \<and>
   map (\<lambda>kq. length (snd kq)) (columns label_only_frozen) = [1, 1, 1] \<and>
   map_option snd (data_converter label_only_frozen) = Some CLASSIFICATION \<and>
   client label_only_frozen \<and>
   sink label_only_frozen = [] \<and>
   fst (export_data label_only_frozen) = None \<and>
   sink (snd (export_data label_only_frozen)) = [] \<and>
   columns (snd (export_data label_only_frozen)) =
     [(''timestamp'', []), (''request_id'', []), (''pred_label'', [])]"
  by code_simp

section \<open>Draining the buffers\<close>

text \<open>
  Popping a record from queues that are all non-empty takes the head of each; when the
  queues are all empty the first pop raises and nothing changes.
\<close>

lemma popleft_all_full:
  assumes "\<forall>kq \<in> set cols. snd kq \<noteq> []"
  shows "popleft_all cols = (Some (nth_record cols 0), drop_records 1 cols)"
  using assms
proof (induction cols)
  case Nil
  show ?case by (simp add: nth_record_def drop_records_def)
next
  case (Cons kq cols)
  obtain k q where kq: "kq = (k, q)" by (cases kq)
  with Cons.prems obtain v q' where q: "q = v # q'" by (cases q) auto
  from Cons have "popleft_all cols = (Some (nth_record cols 0), drop_records 1 cols)" by simp
  with kq q show ?case by (simp add: nth_record_def drop_records_def)
qed

lemma popleft_all_drained:
  assumes "cols \<noteq> []" and "\<forall>kq \<in> set cols. snd kq = []"
  shows "popleft_all cols = (None, cols)"
  using assms by (cases cols) auto

lemma export_row_state:
  "export_row (m\<lparr>columns := c\<rparr>) = export_row m"
  "export_row (m\<lparr>sink := s\<rparr>) = export_row m"
  "export_row (emit ws m) = export_row m"
  by (auto simp: export_row_def emit_def fun_eq_iff
           split: sum.splits DataType.splits option.splits prod.splits)

lemma export_loop_drains:
  assumes "columns m \<noteq> []"
      and "\<forall>kq \<in> set (columns m). length (snd kq) = n"
      and "\<forall>i < n. \<exists>row. export_row m mid mt env (nth_record (columns m) i) = (Inr row, [])"
  shows "export_loop mid mt env m =
           (None, m\<lparr>columns := drop_records n (columns m),
                    sink := sink m @ map (\<lambda>i. projr (fst (export_row m mid mt env (nth_record (columns m) i)))) [0..<n]\<rparr>)"
  using assms
proof (induction n arbitrary: m)
  case 0
  then have "popleft_all (columns m) = (None, columns m)"
    by (intro popleft_all_drained) auto
  moreover have "drop_records 0 (columns m) = columns m"
    by (simp add: drop_records_def)
  ultimately show ?case
    by (subst export_loop.simps) (simp add: export_turn_def)
next
  case (Suc n)
  define cols where "cols = columns m"
  from Suc.prems(2) have pop: "popleft_all cols = (Some (nth_record cols 0), drop_records 1 cols)"
    unfolding cols_def by (intro popleft_all_full) auto
  from Suc.prems(3) obtain row where row: "export_row m mid mt env (nth_record cols 0) = (Inr row, [])"
    unfolding cols_def by auto
  define m' where "m' = (emit [] (m\<lparr>columns := drop_records 1 cols\<rparr>))\<lparr>sink := sink m @ [row]\<rparr>"
  have turn: "export_turn mid mt env m = (Continue, m')"
    using pop row by (simp add: export_turn_def Let_def export_row_state m'_def cols_def)
  have cols': "columns m' = drop_records 1 cols"
    by (simp add: m'_def emit_def)
  have sink': "sink m' = sink m @ [row]"
    by (simp add: m'_def emit_def)
  have shift: "nth_record (columns m') i = nth_record cols (Suc i)" if "i < n" for i
    using that Suc.prems(2) unfolding cols' cols_def
    by (auto simp: nth_record_def drop_records_def)
  have row': "export_row m' = export_row m"
    by (simp add: m'_def export_row_state)
  have ih: "export_loop mid mt env m' =
          (None, m'\<lparr>columns := drop_records n (columns m'),
                    sink := sink m' @ map (\<lambda>i. projr (fst (export_row m' mid mt env (nth_record (columns m') i)))) [0..<n]\<rparr>)"
  proof (rule Suc.IH)
    show "columns m' \<noteq> []"
      using Suc.prems(1) unfolding cols' cols_def by (simp add: drop_records_def)
    show "\<forall>kq \<in> set (columns m'). length (snd kq) = n"
      using Suc.prems(2) unfolding cols' cols_def by (auto simp: drop_records_def)
    show "\<forall>i < n. \<exists>row. export_row m' mid mt env (nth_record (columns m') i) = (Inr row, [])"
    proof (intro allI impI)
      fix i assume i: "i < n"
      then have "Suc i < Suc n" by simp
      with Suc.prems(3) obtain r where "export_row m mid mt env (nth_record cols (Suc i)) = (Inr r, [])"
        unfolding cols_def by blast
      then show "\<exists>row. export_row m' mid mt env (nth_record (columns m') i) = (Inr row, [])"
        unfolding row' shift [OF i] by blast
    qed
  qed
  have rows: "map (\<lambda>i. projr (fst (export_row m' mid mt env (nth_record (columns m') i)))) [0..<n]
              = map (\<lambda>i. projr (fst (export_row m mid mt env (nth_record cols (Suc i))))) [0..<n]"
    unfolding row' using shift by simp
  have dr: "drop_records n (columns m') = drop_records (Suc n) cols"
    unfolding cols' by (simp add: drop_records_def comp_def)
  have upt: "map (\<lambda>i. projr (fst (export_row m mid mt env (nth_record cols i)))) [0..<Suc n]
             = row # map (\<lambda>i. projr (fst (export_row m mid mt env (nth_record cols (Suc i))))) [0..<n]"
    unfolding map_upt_Suc by (simp add: row)
  have "export_loop mid mt env m = export_loop mid mt env m'"
    by (subst export_loop.simps) (simp add: turn)
  also have "\<dots> = (None, m'\<lparr>columns := drop_records (Suc n) cols,
                    sink := (sink m @ [row]) @ map (\<lambda>i. projr (fst (export_row m mid mt env (nth_record cols (Suc i))))) [0..<n]\<rparr>)"
    unfolding ih rows dr sink' ..
  also have "\<dots> = (None, m\<lparr>columns := drop_records (Suc n) cols,
                    sink := sink m @ map (\<lambda>i. projr (fst (export_row m mid mt env (nth_record cols i)))) [0..<Suc n]\<rparr>)"
    unfolding upt by (simp add: m'_def emit_def)
  finally show ?case unfolding cols_def .
qed

lemma remdups_constant:
  assumes "xs \<noteq> []" and "\<forall>x \<in> set xs. x = n"
  shows "remdups xs = [n]"
  using assms
proof (induction xs)
  case Nil
  then show ?case by simp
next
  case (Cons x xs)
  show ?case
  proof (cases "xs = []")
    case True
    with Cons.prems show ?thesis by simp
  next
    case False
    with Cons have "remdups xs = [n]" by simp
    moreover from False Cons.prems have "x \<in> set xs" by (cases xs) auto
    ultimately show ?thesis by simp
  qed
qed

text \<open>
  Round trip where the converter succeeds. When every queue holds \<open>n\<close> elements, the
  three assertions on the model options pass, and the \<^verbatim>\<open>try\<close> block succeeds on each of
  the \<open>n\<close> buffered records, one \<^verbatim>\<open>export_data\<close> call returns normally, empties every
  queue and appends \<open>n\<close> rows to the sink, the \<open>i\<close>-th row built from the \<open>i\<close>-th
  element of every queue.
\<close>

theorem export_data_round_trip:
  assumes "columns m \<noteq> []"
      and "\<forall>kq \<in> set (columns m). length (snd kq) = n"
      and "model_id m = Some mid" and "model_type m = Some mt" and "environment m = Some env"
      and "\<forall>i < n. \<exists>row. export_row m mid mt env (nth_record (columns m) i) = (Inr row, [])"
  shows "export_data m =
           (None, m\<lparr>columns := map (\<lambda>kq. (fst kq, [])) (columns m),
                    sink := sink m @ map (\<lambda>i. projr (fst (export_row m mid mt env (nth_record (columns m) i)))) [0..<n]\<rparr>)"
proof -
  have "remdups (map (\<lambda>kq. length (snd kq)) (columns m)) = [n]"
    using assms(1,2) by (intro remdups_constant) auto
  then have "export_data m = export_loop mid mt env m"
    by (simp add: export_data_def assms(3,4,5))
  moreover have "drop_records n (columns m) = map (\<lambda>kq. (fst kq, [])) (columns m)"
    using assms(2) by (simp add: drop_records_def)
  ultimately show ?thesis
    using export_loop_drains [OF assms(1,2,6)] by simp
qed

lemma scenario_A_frozen_facts:
  "columns scenario_A_frozen =
     [(''timestamp'', [DFloat (now ctx0)]), (''request_id'', [DInt 7]), (''age'', [DInt 30]),
      (''pred_label'', [DStr ''yes'']), (''label'', [DStr ''yes''])]"
  "model_id scenario_A_frozen = Some ''bento''"
  "model_type scenario_A_frozen = Some SCORE_CATEGORICAL"
  "environment scenario_A_frozen = Some PRODUCTION"
  "sink scenario_A_frozen = []"
  by code_simp+

lemma scenario_A_row:
  "export_row scenario_A_frozen ''bento'' SCORE_CATEGORICAL PRODUCTION
     [(''timestamp'', DFloat (now ctx0)), (''request_id'', DInt 7), (''age'', DInt 30),
      (''pred_label'', DStr ''yes''), (''label'', DStr ''yes'')] =
   (Inr \<lparr>row_model_id = ''bento'', row_model_type = SCORE_CATEGORICAL,
         row_environment = PRODUCTION, row_model_version = Some ''v1'', row_tags = None,
         row_prediction_id = DInt 7, row_prediction_timestamp = 12,
         row_prediction_label = Single (DStr ''yes''), row_actual_label = Single (DStr ''yes''),
         row_features = [(''age'', DInt 30)], row_embedding_features = []\<rparr>, [])"
  by code_simp

theorem export_data_round_trip_witness:
  "export_data scenario_A_frozen =
     (None, scenario_A_frozen\<lparr>
        columns := [(''timestamp'', []), (''request_id'', []), (''age'', []),
                    (''pred_label'', []), (''label'', [])],
        sink := [\<lparr>row_model_id = ''bento'', row_model_type = SCORE_CATEGORICAL,
                  row_environment = PRODUCTION, row_model_version = Some ''v1'', row_tags = None,
                  row_prediction_id = DInt 7, row_prediction_timestamp = 12,
                  row_prediction_label = Single (DStr ''yes''),
                  row_actual_label = Single (DStr ''yes''),
                  row_features = [(''age'', DInt 30)], row_embedding_features = []\<rparr>]\<rparr>)"
proof -
  note facts = scenario_A_frozen_facts
  have h1: "columns scenario_A_frozen \<noteq> []"
    by (simp add: facts(1))
  have h2: "\<forall>kq \<in> set (columns scenario_A_frozen). length (snd kq) = 1"
    by (simp add: facts(1))
  have rec0: "nth_record (columns scenario_A_frozen) 0 =
     [(''timestamp'', DFloat (now ctx0)), (''request_id'', DInt 7), (''age'', DInt 30),
      (''pred_label'', DStr ''yes''), (''label'', DStr ''yes'')]"
    by (simp add: facts(1) nth_record_def)
  have h6: "\<forall>i < 1. \<exists>row. export_row scenario_A_frozen ''bento'' SCORE_CATEGORICAL PRODUCTION
                         (nth_record (columns scenario_A_frozen) i) = (Inr row, [])"
    by (simp add: rec0 scenario_A_row)
  show ?thesis
    using export_data_round_trip [OF h1 h2 facts(2,3,4) h6]
    by (simp add: rec0 [unfolded facts(1)] scenario_A_row facts(1,5))
qed

section \<open>Closing a record with nothing logged\<close>

lemma export_schema_keeps:
  "sink (snd (export_schema ctx m)) = sink m \<and>
   columns (snd (export_schema ctx m)) = columns m \<and>
   is_first_column (snd (export_schema ctx m)) = is_first_column m"
  by (auto simp: export_schema_def emit_def bindE_def Let_def
           split: prod.splits sum.splits)

text \<open>
  A predicate that answers no has logged nothing, the regression predicate raises before it
  logs, and \<^verbatim>\<open>_infer_mapping\<close> never returns \<^verbatim>\<open>RANKING\<close>. So a schema export that
  raises has raised in \<^verbatim>\<open>_infer_mapping\<close>, and has changed the monitor only by the
  warnings of \<^verbatim>\<open>_stat_fields\<close>.
\<close>

lemma scored_form_False:
  "is_valid_scored_classification_form fs w = (False, ws) \<Longrightarrow> ws = []"
  by (simp add: is_valid_scored_classification_form_def split: if_splits)

lemma classification_form_False:
  "is_valid_classification_form fs w = (False, ws) \<Longrightarrow> ws = []"
  by (simp add: is_valid_classification_form_def split: if_splits)

lemma regression_form_raises:
  "is_valid_regression_form fs w = (Inl (AttributeError ''is_filled''), [])"
  by (simp add: is_valid_regression_form_def FieldStats_is_filled_def)

lemma infer_mapping_failure_no_warning:
  assumes "infer_mapping fs mt = (Inl e, ws)"
  shows "ws = []"
proof -
  obtain b1 w1 where s: "is_valid_scored_classification_form fs (mt \<noteq> None) = (b1, w1)"
    by (cases "is_valid_scored_classification_form fs (mt \<noteq> None)")
  obtain b2 w2 where c: "is_valid_classification_form fs (mt \<noteq> None) = (b2, w2)"
    by (cases "is_valid_classification_form fs (mt \<noteq> None)")
  show ?thesis
  proof (cases mt)
    case None
    with assms s c show ?thesis
      by (cases b1; cases b2)
         (auto simp: infer_mapping_def regression_form_raises
               dest: scored_form_False classification_form_False)
  next
    case (Some h)
    with assms s c show ?thesis
      by (cases h; cases b1; cases b2)
         (auto simp: infer_mapping_def regression_form_raises
               dest: scored_form_False classification_form_False)
  qed
qed

lemma infer_mapping_not_ranking:
  "infer_mapping fs mt \<noteq> (Inr RANKING, ws)"
proof -
  obtain b1 w1 where s: "is_valid_scored_classification_form fs (mt \<noteq> None) = (b1, w1)"
    by (cases "is_valid_scored_classification_form fs (mt \<noteq> None)")
  obtain b2 w2 where c: "is_valid_classification_form fs (mt \<noteq> None) = (b2, w2)"
    by (cases "is_valid_classification_form fs (mt \<noteq> None)")
  show ?thesis
  proof (cases mt)
    case None
    with s c show ?thesis
      by (cases b1; cases b2) (auto simp: infer_mapping_def regression_form_raises)
  next
    case (Some h)
    with s c show ?thesis
      by (cases h; cases b1; cases b2) (auto simp: infer_mapping_def regression_form_raises)
  qed
qed


lemma export_schema_failure:
  assumes "fst (export_schema ctx m) \<noteq> None"
  shows "snd (export_schema ctx m) = emit (snd (stat_fields (schema m))) m"
proof -
  define m1 where "m1 = emit (snd (stat_fields (schema m))) m"
  have mt: "model_type m1 = model_type m" by (simp add: m1_def emit_def)
  obtain r ws where inf: "infer_mapping (fst (stat_fields (schema m))) (model_type m) = (r, ws)"
    by (cases "infer_mapping (fst (stat_fields (schema m))) (model_type m)")
  show ?thesis
  proof (cases r)
    case (Inl e)
    with inf have "ws = []" by (auto dest: infer_mapping_failure_no_warning)
    with inf Inl have "export_schema ctx m = (Some e, emit [] m1)"
      by (simp add: export_schema_def Let_def m1_def [symmetric] mt)
    then show ?thesis by (simp add: emit_def m1_def)
  next
    case (Inr mapping)
    with inf have nr: "mapping \<noteq> RANKING" using infer_mapping_not_ranking by auto
    then obtain t where t: "mapping_to_model_type mapping = Inr t"
      by (cases mapping) (simp_all add: mapping_to_model_type_def)
    have "fst (export_schema ctx m) = None"
      using inf Inr t
      by (simp add: export_schema_def Let_def m1_def [symmetric] mt bindE_def emit_def)
    with assms show ?thesis by simp
  qed
qed

text \<open>
  C4, as the code has it. After \<^verbatim>\<open>start_record\<close> with no \<^verbatim>\<open>log\<close> call,
  \<^verbatim>\<open>stop_record\<close> sends no row to the sink. When the record is not the monitor's first,
  or it is the first and the schema export that \<^verbatim>\<open>stop_record\<close> runs beforehand returns
  normally, \<^verbatim>\<open>stop_record\<close> returns normally, leaves the queues alone and logs the
  no-data warning last. On a first record whose schema export raises, \<^verbatim>\<open>stop_record\<close>
  raises that exception and leaves the monitor as the schema export left it: the record
  still open and first, the no-data warning not logged, and the warnings of
  \<^verbatim>\<open>_stat_fields\<close> on the schema logged so far appended (none for an empty schema).
\<close>

theorem stop_record_empty_record:
  "sink (snd (stop_record ctx (start_record m))) = sink m \<and>
   (\<not> is_first_record m \<or> fst (export_schema ctx (start_record m)) = None \<longrightarrow>
      fst (stop_record ctx (start_record m)) = None \<and>
      columns (snd (stop_record ctx (start_record m))) = columns m \<and>
      warnings (snd (stop_record ctx (start_record m))) =
        warnings (if is_first_record m then snd (export_schema ctx (start_record m)) else m)
          @ [NoDataLogged]) \<and>
   (is_first_record m \<and> fst (export_schema ctx (start_record m)) \<noteq> None \<longrightarrow>
      stop_record ctx (start_record m) = export_schema ctx (start_record m) \<and>
      snd (stop_record ctx (start_record m)) = emit (snd (stat_fields (schema m))) (start_record m) \<and>
      warnings (snd (stop_record ctx (start_record m))) = warnings m @ snd (stat_fields (schema m)))"
proof (cases "is_first_record m")
  case False
  then show ?thesis
    by (simp add: stop_record_def start_record_def emit_def)
next
  case True
  obtain e m' where es: "export_schema ctx (start_record m) = (e, m')"
    by (cases "export_schema ctx (start_record m)")
  from export_schema_keeps [of ctx "start_record m"] es
  have keeps: "sink m' = sink m" "columns m' = columns m" "is_first_column m'"
    by (simp_all add: start_record_def)
  from True have first: "is_first_record (start_record m)"
    by (simp add: start_record_def)
  show ?thesis
  proof (cases e)
    case None
    with es first keeps show ?thesis
      by (simp add: stop_record_def emit_def True)
  next
    case (Some err)
    with es have "fst (export_schema ctx (start_record m)) \<noteq> None" by simp
    from export_schema_failure [OF this] es
    have m': "m' = emit (snd (stat_fields (schema m))) (start_record m)"
      by (simp add: start_record_def)
    have stop: "stop_record ctx (start_record m) = (Some err, m')"
      using es first Some by (simp add: stop_record_def)
    have ws: "warnings m' = warnings m @ snd (stat_fields (schema m))"
      unfolding m' by (simp add: emit_def start_record_def)
    from stop es Some keeps m' ws show ?thesis
      by (simp add: True)
  qed
qed

theorem stop_record_empty_record_witness:
  "fst (export_schema ctx0 (start_record (fresh (Some (OtherModelType ''RANKING''))))) = None \<and>
   fst (stop_record ctx0 (start_record (fresh (Some (OtherModelType ''RANKING''))))) = None \<and>
   sink (snd (stop_record ctx0 (start_record (fresh (Some (OtherModelType ''RANKING'')))))) = [] \<and>
   columns (snd (stop_record ctx0 (start_record (fresh (Some (OtherModelType ''RANKING'')))))) = [] \<and>
   warnings (snd (stop_record ctx0 (start_record (fresh (Some (OtherModelType ''RANKING''))))))
     = [UnsupportedModelType, NoDataLogged] \<and>
   is_first_record failed_first_record \<and>
   warnings failed_first_record = [IgnoredSequencePrediction ''emb''] \<and>
   fst (export_schema ctx0 (start_record failed_first_record))
     = Some (ValueError ''Not a valid arize classification schema'') \<and>
   fst (stop_record ctx0 (start_record failed_first_record))
     = Some (ValueError ''Not a valid arize classification schema'') \<and>
   is_first_record (snd (stop_record ctx0 (start_record failed_first_record))) \<and>
   sink (snd (stop_record ctx0 (start_record failed_first_record))) = [] \<and>
   warnings (snd (stop_record ctx0 (start_record failed_first_record)))
     = [IgnoredSequencePrediction ''emb'', IgnoredSequencePrediction ''emb'']"
proof -
  have ok: "fst (export_schema ctx0 (start_record (fresh (Some (OtherModelType ''RANKING''))))) = None"
    by code_simp
  have ws: "warnings (snd (export_schema ctx0 (start_record (fresh (Some (OtherModelType ''RANKING''))))))
              = [UnsupportedModelType]"
    by code_simp
  have init: "is_first_record (fresh (Some (OtherModelType ''RANKING'')))"
       "sink (fresh (Some (OtherModelType ''RANKING''))) = []"
       "columns (fresh (Some (OtherModelType ''RANKING''))) = []"
    by (simp_all add: fresh_def Monitor_init_def)
  have succeeds:
    "fst (stop_record ctx0 (start_record (fresh (Some (OtherModelType ''RANKING''))))) = None \<and>
     sink (snd (stop_record ctx0 (start_record (fresh (Some (OtherModelType ''RANKING'')))))) = [] \<and>
     columns (snd (stop_record ctx0 (start_record (fresh (Some (OtherModelType ''RANKING'')))))) = [] \<and>
     warnings (snd (stop_record ctx0 (start_record (fresh (Some (OtherModelType ''RANKING''))))))
       = [UnsupportedModelType, NoDataLogged]"
    using stop_record_empty_record [of ctx0 "fresh (Some (OtherModelType ''RANKING''))"] ok ws init
    by simp
  have first: "is_first_record failed_first_record"
    by code_simp
  have before: "warnings failed_first_record = [IgnoredSequencePrediction ''emb'']"
    by code_simp
  have nothing_sent: "sink failed_first_record = []"
    by code_simp
  have raised: "fst (export_schema ctx0 (start_record failed_first_record))
                  = Some (ValueError ''Not a valid arize classification schema'')"
    by code_simp
  have classified: "snd (stat_fields (schema failed_first_record)) = [IgnoredSequencePrediction ''emb'']"
    by code_simp
  have ne: "fst (export_schema ctx0 (start_record failed_first_record)) \<noteq> None"
    using raised by simp
  note at_failed = stop_record_empty_record [of ctx0 failed_first_record]
  have same: "stop_record ctx0 (start_record failed_first_record)
                = export_schema ctx0 (start_record failed_first_record)"
    using at_failed first ne by blast
  have left: "snd (stop_record ctx0 (start_record failed_first_record))
                = emit (snd (stat_fields (schema failed_first_record))) (start_record failed_first_record)"
    using at_failed first ne by blast
  have logged: "warnings (snd (stop_record ctx0 (start_record failed_first_record)))
                  = warnings failed_first_record @ snd (stat_fields (schema failed_first_record))"
    using at_failed first ne by blast
  have sent: "sink (snd (stop_record ctx0 (start_record failed_first_record))) = sink failed_first_record"
    using at_failed by blast
  have f1: "fst (stop_record ctx0 (start_record failed_first_record))
              = Some (ValueError ''Not a valid arize classification schema'')"
    unfolding same by (rule raised)
  have f2: "is_first_record (snd (stop_record ctx0 (start_record failed_first_record)))"
    unfolding left using first by (simp add: emit_def start_record_def)
  have f3: "sink (snd (stop_record ctx0 (start_record failed_first_record))) = []"
    unfolding sent by (rule nothing_sent)
  have f4: "warnings (snd (stop_record ctx0 (start_record failed_first_record)))
              = [IgnoredSequencePrediction ''emb'', IgnoredSequencePrediction ''emb'']"
    unfolding logged before classified by simp
  from f1 f2 f3 f4 have fails:
    "fst (stop_record ctx0 (start_record failed_first_record))
       = Some (ValueError ''Not a valid arize classification schema'') \<and>
     is_first_record (snd (stop_record ctx0 (start_record failed_first_record))) \<and>
     sink (snd (stop_record ctx0 (start_record failed_first_record))) = [] \<and>
     warnings (snd (stop_record ctx0 (start_record failed_first_record)))
       = [IgnoredSequencePrediction ''emb'', IgnoredSequencePrediction ''emb'']"
    by blast
  from ok succeeds first before raised fails show ?thesis by blast
qed

text \<open>
  The claim C4 as stated fails on a monitor's first record: with the SCORE_CATEGORICAL
  hint and nothing logged, \<^verbatim>\<open>stop_record\<close> raises the ValueError of \<^verbatim>\<open>_infer_mapping\<close>
  and logs no warning.
\<close>

theorem stop_record_empty_first_record_counterexample:
  "fst (stop_record ctx0 (start_record (fresh (Some SCORE_CATEGORICAL))))
     = Some (ValueError ''Not a valid arize classification schema'') \<and>
   warnings (snd (stop_record ctx0 (start_record (fresh (Some SCORE_CATEGORICAL))))) = []"
  by code_simp

end
